theory Spec2Isabelle
  imports Complex_Main
begin

section \<open>Python values\<close>

text \<open>
  A Python \<open>str\<close> is a sequence of Unicode code points, so a string is a list of
  natural numbers; \<open>str ''abc''\<close> writes an ASCII literal. Code points above \<open>0x10FFFF\<close>
  do not occur in a Python string.
\<close>

type_synonym pystr = "nat list"

definition str :: "string \<Rightarrow> pystr" where
  "str s = map of_char s"

text \<open>
  \<open>str.isspace\<close>, which is also the class \<^verbatim>\<open>\s\<close> of a \<open>str\<close> pattern and what
  \<open>str.strip()\<close> removes.
\<close>

definition is_space :: "nat \<Rightarrow> bool" where
  "is_space c =
     ((9 \<le> c \<and> c \<le> 13) \<or> (28 \<le> c \<and> c \<le> 32) \<or> c = 0x85 \<or> c = 0xA0 \<or> c = 0x1680
      \<or> (0x2000 \<le> c \<and> c \<le> 0x200A) \<or> c = 0x2028 \<or> c = 0x2029 \<or> c = 0x202F
      \<or> c = 0x205F \<or> c = 0x3000)"

definition strip :: "pystr \<Rightarrow> pystr" where
  "strip s = rev (dropWhile is_space (rev (dropWhile is_space s)))"

text \<open>
  The class \<^verbatim>\<open>\w\<close> of a \<open>str\<close> pattern: letters, digits and the underscore. Its ASCII
  part is written out; which code points from 128 on are alphanumeric is a table of the
  Unicode database, taken as the parameter \<open>W\<close>.
\<close>

definition ascii_word :: "nat \<Rightarrow> bool" where
  "ascii_word c =
     ((48 \<le> c \<and> c \<le> 57) \<or> (65 \<le> c \<and> c \<le> 90) \<or> c = 95 \<or> (97 \<le> c \<and> c \<le> 122))"

definition is_word :: "(nat \<Rightarrow> bool) \<Rightarrow> nat \<Rightarrow> bool" where
  "is_word W c = (if c < 128 then ascii_word c else W c)"

text \<open>
  Matching an ASCII pattern character \<open>p\<close> under \<^verbatim>\<open>(?i)\<close>: the text character is
  lowered and compared, and the pattern letters i, k and s also accept the code points
  that case-fold to them (U+0130, U+0131, U+212A, U+017F).
\<close>

definition lower_ascii :: "nat \<Rightarrow> nat" where
  "lower_ascii c = (if 65 \<le> c \<and> c \<le> 90 then c + 32 else c)"

definition ci_eq :: "nat \<Rightarrow> nat \<Rightarrow> bool" where
  "ci_eq p c =
     (lower_ascii c = lower_ascii p
      \<or> (lower_ascii p = 105 \<and> (c = 0x130 \<or> c = 0x131))
      \<or> (lower_ascii p = 107 \<and> c = 0x212A)
      \<or> (lower_ascii p = 115 \<and> c = 0x17F))"

text \<open>A value decoded from JSON; \<open>JNull\<close> is also Python's \<open>None\<close>.\<close>

datatype json =
    JNull
  | JBool bool
  | JNum real
  | JStr pystr
  | JList "json list"
  | JDict "(pystr \<times> json) list"

text \<open>Truth value testing, as in \<^verbatim>\<open>if data:\<close>.\<close>

fun truthy :: "json \<Rightarrow> bool" where
  "truthy JNull = False"
| "truthy (JBool b) = b"
| "truthy (JNum x) = (x \<noteq> 0)"
| "truthy (JStr s) = (s \<noteq> [])"
| "truthy (JList xs) = (xs \<noteq> [])"
| "truthy (JDict d) = (d \<noteq> [])"

datatype py_error = TypeError | AttributeError | UnicodeEncodeError

text \<open>
  \<^verbatim>\<open>data.get(key, default)\<close>: the default is returned only when the key is absent; a
  value that is not a dict has no \<open>get\<close>.
\<close>

fun dict_get :: "json \<Rightarrow> pystr \<Rightarrow> json \<Rightarrow> py_error + json" where
  "dict_get (JDict d) k dflt = Inr (case map_of d k of None \<Rightarrow> dflt | Some v \<Rightarrow> v)"
| "dict_get other k dflt = Inl AttributeError"

section \<open>Regular expressions (the part of \<open>re\<close> the patterns use)\<close>

text \<open>An item of a character class \<^verbatim>\<open>[...]\<close>: a character, a range, or \<^verbatim>\<open>\s\<close>.\<close>

datatype citem = C nat | R nat nat | S

fun citem_ok :: "citem \<Rightarrow> nat \<Rightarrow> bool" where
  "citem_ok (C p) c = (c = p)"
| "citem_ok (R lo hi) c = (lo \<le> c \<and> c \<le> hi)"
| "citem_ok S c = is_space c"

text \<open>
  What matches one character: a literal, a literal under \<^verbatim>\<open>(?i)\<close>, the dot (anything
  but a line feed), a class, a negated class, \<^verbatim>\<open>\s\<close> and \<^verbatim>\<open>\S\<close>.
\<close>

datatype atom = Chr nat | ChrI nat | Dot | Set "citem list" | NSet "citem list" | Spc | NSpc

fun atom_ok :: "atom \<Rightarrow> nat \<Rightarrow> bool" where
  "atom_ok (Chr p) c = (c = p)"
| "atom_ok (ChrI p) c = ci_eq p c"
| "atom_ok Dot c = (c \<noteq> 10)"
| "atom_ok (Set items) c = list_ex (\<lambda>i. citem_ok i c) items"
| "atom_ok (NSet items) c = (\<not> list_ex (\<lambda>i. citem_ok i c) items)"
| "atom_ok Spc c = is_space c"
| "atom_ok NSpc c = (\<not> is_space c)"

text \<open>
  Patterns. Repetition is applied to single characters only, as in every pattern of the
  program: \<open>Star\<close> is \<^verbatim>\<open>x*\<close>, \<open>Lazy\<close> is \<^verbatim>\<open>x*?\<close>, \<open>Plus\<close> is \<^verbatim>\<open>x+\<close>, \<open>Rep n\<close> is
  \<^verbatim>\<open>x{n}\<close>, \<open>AtLeast n\<close> is \<^verbatim>\<open>x{n,}\<close>. \<open>Opt\<close> is \<^verbatim>\<open>(?:r)?\<close>, \<open>Grp\<close> is the capturing
  group 1, \<open>WordB\<close> is \<^verbatim>\<open>\b\<close>, \<open>Bol\<close> is \<^verbatim>\<open>^\<close>, \<open>Eol\<close> is \<^verbatim>\<open>$\<close>. \<open>GrpEnd\<close> is not
  written in a pattern: the matcher leaves it on its stack where the group closes.
\<close>

datatype re =
    Atom atom
  | Cat re re
  | Alt re re
  | Opt re
  | Star atom
  | Lazy atom
  | Plus atom
  | Rep nat atom
  | AtLeast nat atom
  | Grp re
  | GrpEnd nat
  | WordB
  | Bol
  | Eol

fun wt :: "re \<Rightarrow> nat" where
  "wt (Cat a b) = Suc (wt a + wt b)"
| "wt (Alt a b) = Suc (wt a + wt b)"
| "wt (Opt a) = Suc (wt a)"
| "wt (Plus a) = 3"
| "wt (Rep n a) = 2 * n + 1"
| "wt (AtLeast n a) = 2 * n + 3"
| "wt (Grp a) = wt a + 2"
| "wt other = 1"

definition word_at :: "(nat \<Rightarrow> bool) \<Rightarrow> pystr \<Rightarrow> bool" where
  "word_at W cs = (case cs of [] \<Rightarrow> False | c # rest \<Rightarrow> is_word W c)"

text \<open>
  The backtracking matcher. \<open>rmatch W k prev rest cap\<close> matches the patterns of the stack
  \<open>k\<close>, one after the other, at the position that has \<open>prev\<close> (reversed) before it and
  \<open>rest\<close> after it; \<open>cap\<close> is what group 1 has captured. It returns the first match in
  the engine's order of preference (an alternative or one more repetition before the
  other choice, for \<open>Lazy\<close> the other way round): the captured group and what is left of
  the text, or \<open>None\<close> when there is no match here.
\<close>

function rmatch :: "(nat \<Rightarrow> bool) \<Rightarrow> re list \<Rightarrow> pystr \<Rightarrow> pystr \<Rightarrow> pystr option
    \<Rightarrow> (pystr option \<times> pystr) option" where
  "rmatch W [] prev rest cap = Some (cap, rest)"
| "rmatch W (Atom a # k) prev [] cap = None"
| "rmatch W (Atom a # k) prev (c # cs) cap =
     (if atom_ok a c then rmatch W k (c # prev) cs cap else None)"
| "rmatch W (Cat a b # k) prev rest cap = rmatch W (a # b # k) prev rest cap"
| "rmatch W (Alt a b # k) prev rest cap =
     (case rmatch W (a # k) prev rest cap of
        Some r \<Rightarrow> Some r
      | None \<Rightarrow> rmatch W (b # k) prev rest cap)"
| "rmatch W (Opt a # k) prev rest cap =
     (case rmatch W (a # k) prev rest cap of
        Some r \<Rightarrow> Some r
      | None \<Rightarrow> rmatch W k prev rest cap)"
| "rmatch W (Star a # k) prev [] cap = rmatch W k prev [] cap"
| "rmatch W (Star a # k) prev (c # cs) cap =
     (if atom_ok a c
      then (case rmatch W (Star a # k) (c # prev) cs cap of
              Some r \<Rightarrow> Some r
            | None \<Rightarrow> rmatch W k prev (c # cs) cap)
      else rmatch W k prev (c # cs) cap)"
| "rmatch W (Lazy a # k) prev [] cap = rmatch W k prev [] cap"
| "rmatch W (Lazy a # k) prev (c # cs) cap =
     (case rmatch W k prev (c # cs) cap of
        Some r \<Rightarrow> Some r
      | None \<Rightarrow> if atom_ok a c then rmatch W (Lazy a # k) (c # prev) cs cap else None)"
| "rmatch W (Plus a # k) prev rest cap = rmatch W (Atom a # Star a # k) prev rest cap"
| "rmatch W (Rep n a # k) prev rest cap =
     (if n = 0 then rmatch W k prev rest cap
      else rmatch W (Atom a # Rep (n - 1) a # k) prev rest cap)"
| "rmatch W (AtLeast n a # k) prev rest cap = rmatch W (Rep n a # Star a # k) prev rest cap"
| "rmatch W (Grp r # k) prev rest cap = rmatch W (r # GrpEnd (length rest) # k) prev rest cap"
| "rmatch W (GrpEnd n # k) prev rest cap =
     rmatch W k prev rest (Some (rev (take (n - length rest) prev)))"
| "rmatch W (WordB # k) prev rest cap =
     (if word_at W prev \<noteq> word_at W rest then rmatch W k prev rest cap else None)"
| "rmatch W (Bol # k) prev rest cap = (if prev = [] then rmatch W k prev rest cap else None)"
| "rmatch W (Eol # k) prev rest cap =
     (if rest = [] \<or> rest = [10] then rmatch W k prev rest cap else None)"
  by pat_completeness auto
termination
  by (relation "measures [\<lambda>(W, k, prev, rest, cap). sum_list (map wt k),
                          \<lambda>(W, k, prev, rest, cap). length rest]") auto

text \<open>
  \<open>finditer\<close>: the matches from left to right, without overlap, each as (start, end,
  group 1). \<open>skip\<close> counts the characters still covered by the last match. After an
  empty match the search moves on by one character; no pattern of the program matches
  the empty string.
\<close>

fun matches_from :: "(nat \<Rightarrow> bool) \<Rightarrow> re \<Rightarrow> pystr \<Rightarrow> pystr \<Rightarrow> nat
    \<Rightarrow> (nat \<times> nat \<times> pystr option) list" where
  "matches_from W r prev [] skip =
     (if skip = 0
      then (case rmatch W [r] prev [] None of
              Some (cap, rest') \<Rightarrow> [(length prev, length prev, cap)]
            | None \<Rightarrow> [])
      else [])"
| "matches_from W r prev (c # cs) skip =
     (if skip > 0 then matches_from W r (c # prev) cs (skip - 1)
      else (case rmatch W [r] prev (c # cs) None of
              None \<Rightarrow> matches_from W r (c # prev) cs 0
            | Some (cap, rest') \<Rightarrow>
                (let n = Suc (length cs) - length rest'
                 in (length prev, length prev + n, cap)
                    # matches_from W r (c # prev) cs (n - 1))))"

definition finditer :: "(nat \<Rightarrow> bool) \<Rightarrow> re \<Rightarrow> pystr \<Rightarrow> (nat \<times> nat \<times> pystr option) list" where
  "finditer W r s = matches_from W r [] s 0"

text \<open>\<^verbatim>\<open>match.group(1)\<close>, as the f-string that builds the request URL prints it.\<close>

definition group1 :: "nat \<times> nat \<times> pystr option \<Rightarrow> pystr" where
  "group1 mt = (case snd (snd mt) of Some g \<Rightarrow> g | None \<Rightarrow> str ''None'')"

text \<open>\<open>pattern.sub(repl, s)\<close> for a replacement without group references.\<close>

fun sub_from :: "(nat \<Rightarrow> bool) \<Rightarrow> re \<Rightarrow> pystr \<Rightarrow> pystr \<Rightarrow> pystr \<Rightarrow> nat \<Rightarrow> pystr" where
  "sub_from W r repl prev [] skip =
     (if skip = 0
      then (case rmatch W [r] prev [] None of Some x \<Rightarrow> repl | None \<Rightarrow> [])
      else [])"
| "sub_from W r repl prev (c # cs) skip =
     (if skip > 0 then sub_from W r repl (c # prev) cs (skip - 1)
      else (case rmatch W [r] prev (c # cs) None of
              None \<Rightarrow> c # sub_from W r repl (c # prev) cs 0
            | Some (cap, rest') \<Rightarrow>
                (let n = Suc (length cs) - length rest'
                 in if n = 0 then repl @ c # sub_from W r repl (c # prev) cs 0
                    else repl @ sub_from W r repl (c # prev) cs (n - 1))))"

definition re_sub :: "(nat \<Rightarrow> bool) \<Rightarrow> re \<Rightarrow> pystr \<Rightarrow> pystr \<Rightarrow> pystr" where
  "re_sub W r repl s = sub_from W r repl [] s 0"

text \<open>Writing patterns: a sequence, a choice, a literal string, a range of a class.\<close>

fun cat :: "re list \<Rightarrow> re" where
  "cat [] = Rep 0 Dot"
| "cat [r] = r"
| "cat (r # rs) = Cat r (cat rs)"

fun alt :: "re list \<Rightarrow> re" where
  "alt [] = Rep 0 Dot"
| "alt [r] = r"
| "alt (r # rs) = Alt r (alt rs)"

definition lits :: "string \<Rightarrow> re" where
  "lits s = cat (map (\<lambda>c. Atom (Chr (of_char c))) s)"

definition litsI :: "string \<Rightarrow> re" where
  "litsI s = cat (map (\<lambda>c. Atom (ChrI (of_char c))) s)"

definition rng :: "char \<Rightarrow> char \<Rightarrow> citem" where
  "rng a b = R (of_char a) (of_char b)"

definition ch :: "char \<Rightarrow> citem" where
  "ch a = C (of_char a)"

section \<open>The patterns of \<open>MusicLinker\<close>\<close>

text \<open>
  \<^verbatim>\<open>https?://open\.spotify\.com/(?:intl-[a-z]{2}/)?track/([a-zA-Z0-9]{22})\S*\<close>
\<close>

definition SPOTIFY_RE :: re where
  "SPOTIFY_RE = cat
     [lits ''http'', Opt (lits ''s''), lits ''://open.spotify.com/'',
      Opt (cat [lits ''intl-'', Rep 2 (Set [rng CHR ''a'' CHR ''z'']), lits ''/'']),
      lits ''track/'',
      Grp (Rep 22 (Set [rng CHR ''a'' CHR ''z'', rng CHR ''A'' CHR ''Z'',
                        rng CHR ''0'' CHR ''9''])),
      Star NSpc]"

text \<open>
  \<^verbatim>\<open>https?://(?:(?:www\.)?youtube\.com/watch\?[^\s]*v=|youtu\.be/\<close>
  \<^verbatim>\<open>|music\.youtube\.com/watch\?[^\s]*v=)([a-zA-Z0-9_-]{11})\S*\<close>
\<close>

definition YOUTUBE_RE :: re where
  "YOUTUBE_RE = cat
     [lits ''http'', Opt (lits ''s''), lits ''://'',
      alt [cat [Opt (lits ''www.''), lits ''youtube.com/watch?'', Star (NSet [S]),
                lits ''v=''],
           lits ''youtu.be/'',
           cat [lits ''music.youtube.com/watch?'', Star (NSet [S]), lits ''v='']],
      Grp (Rep 11 (Set [rng CHR ''a'' CHR ''z'', rng CHR ''A'' CHR ''Z'',
                        rng CHR ''0'' CHR ''9'', ch CHR ''_'', ch CHR ''-''])),
      Star NSpc]"

text \<open>
  \<^verbatim>\<open>(?i)[\(\[\{].*?[\)\]\}]\<close>; the flag changes nothing, the classes hold no letter.
\<close>

definition YT_TITLE_NOISE :: re where
  "YT_TITLE_NOISE = cat
     [Atom (Set [ch CHR ''('', ch CHR ''['', ch CHR ''{'']), Lazy Dot,
      Atom (Set [ch CHR '')'', ch CHR '']'', ch CHR ''}''])]"

text \<open>
  \<^verbatim>\<open>(?i)\b(?:official\s*(?:music\s*)?video|lyric\s*video|official\s*audio|audio\<close>
  \<^verbatim>\<open>|visualizer|performance\s*video|clip\s*officiel|remaster(?:ed)?|hd|hq|4k|mv)\b\<close>
\<close>

definition YT_TITLE_KEYWORDS :: re where
  "YT_TITLE_KEYWORDS = cat
     [WordB,
      alt [cat [litsI ''official'', Star Spc, Opt (cat [litsI ''music'', Star Spc]),
                litsI ''video''],
           cat [litsI ''lyric'', Star Spc, litsI ''video''],
           cat [litsI ''official'', Star Spc, litsI ''audio''],
           litsI ''audio'',
           litsI ''visualizer'',
           cat [litsI ''performance'', Star Spc, litsI ''video''],
           cat [litsI ''clip'', Star Spc, litsI ''officiel''],
           cat [litsI ''remaster'', Opt (litsI ''ed'')],
           litsI ''hd'', litsI ''hq'', litsI ''4k'', litsI ''mv''],
      WordB]"

text \<open>
  The class of separators, hyphen, en dash, em dash, bar, slash and backslash, and the
  three patterns written in \<open>_clean_yt_title\<close> itself:
  \<^verbatim>\<open>\s*[...]+\s*$\<close>, \<^verbatim>\<open>^\s*[...]+\s*\<close> and \<^verbatim>\<open>\s{2,}\<close>.
\<close>

definition separators :: atom where
  "separators = Set [ch CHR ''-'', C 0x2013, C 0x2014, ch CHR ''|'', ch CHR ''/'', C 92]"

definition TRAILING_SEPARATORS :: re where
  "TRAILING_SEPARATORS = cat [Star Spc, Plus separators, Star Spc, Eol]"

definition LEADING_SEPARATORS :: re where
  "LEADING_SEPARATORS = cat [Bol, Star Spc, Plus separators, Star Spc]"

definition WHITESPACE_RUN :: re where
  "WHITESPACE_RUN = AtLeast 2 Spc"

section \<open>Title cleaning\<close>

text \<open>The five assignments to \<open>cleaned\<close>, before the fallback.\<close>

definition clean_steps :: "(nat \<Rightarrow> bool) \<Rightarrow> pystr \<Rightarrow> pystr" where
  "clean_steps W title =
     (let cleaned = re_sub W YT_TITLE_NOISE [] title;
          cleaned = re_sub W YT_TITLE_KEYWORDS [] cleaned;
          cleaned = re_sub W TRAILING_SEPARATORS [] cleaned;
          cleaned = re_sub W LEADING_SEPARATORS [] cleaned;
          cleaned = strip (re_sub W WHITESPACE_RUN (str '' '') cleaned)
      in cleaned)"

text \<open>\<^verbatim>\<open>return cleaned or title.strip()\<close>\<close>

definition clean_yt_title :: "(nat \<Rightarrow> bool) \<Rightarrow> pystr \<Rightarrow> pystr" where
  "clean_yt_title W title =
     (let cleaned = clean_steps W title in if cleaned \<noteq> [] then cleaned else strip title)"

section \<open>Link builders\<close>

text \<open>
  \<open>urllib.parse.quote\<close>: the string is encoded as UTF-8 with \<open>errors='strict'\<close>, which
  raises on a surrogate code point; every byte that is not a letter, a digit, one of
  \<^verbatim>\<open>_.-~\<close> or listed in \<open>safe\<close> is written as a percent sign and two upper-case
  hexadecimal digits.
\<close>

definition utf8_encode :: "nat \<Rightarrow> nat list option" where
  "utf8_encode c =
     (if c < 0x80 then Some [c]
      else if c < 0x800 then Some [0xC0 + c div 64, 0x80 + c mod 64]
      else if c < 0x10000 then
        (if 0xD800 \<le> c \<and> c \<le> 0xDFFF then None
         else Some [0xE0 + c div 4096, 0x80 + (c div 64) mod 64, 0x80 + c mod 64])
      else if c < 0x110000 then
        Some [0xF0 + c div 262144, 0x80 + (c div 4096) mod 64, 0x80 + (c div 64) mod 64,
              0x80 + c mod 64]
      else None)"

fun encode_utf8 :: "pystr \<Rightarrow> py_error + nat list" where
  "encode_utf8 [] = Inr []"
| "encode_utf8 (c # cs) =
     (case utf8_encode c of
        None \<Rightarrow> Inl UnicodeEncodeError
      | Some bs \<Rightarrow> (case encode_utf8 cs of Inl e \<Rightarrow> Inl e | Inr rest \<Rightarrow> Inr (bs @ rest)))"

definition always_safe :: "nat \<Rightarrow> bool" where
  "always_safe b =
     ((48 \<le> b \<and> b \<le> 57) \<or> (65 \<le> b \<and> b \<le> 90) \<or> (97 \<le> b \<and> b \<le> 122)
      \<or> b = 95 \<or> b = 46 \<or> b = 45 \<or> b = 126)"

definition hexdigit :: "nat \<Rightarrow> nat" where
  "hexdigit n = (if n < 10 then 48 + n else 55 + n)"

definition quote_byte :: "pystr \<Rightarrow> nat \<Rightarrow> pystr" where
  "quote_byte safe b =
     (if always_safe b \<or> b \<in> set safe then [b]
      else [37, hexdigit (b div 16), hexdigit (b mod 16)])"

definition quote :: "pystr \<Rightarrow> pystr \<Rightarrow> py_error + pystr" where
  "quote safe s =
     (case encode_utf8 s of
        Inl e \<Rightarrow> Inl e
      | Inr bs \<Rightarrow> Inr (concat (map (quote_byte safe) bs)))"

text \<open>
  \<open>quote_plus(s)\<close>, with its default \<open>safe=''\<close>: a string with a space is quoted with
  the space kept, and the spaces are then replaced by plus signs.
\<close>

definition quote_plus :: "pystr \<Rightarrow> py_error + pystr" where
  "quote_plus s =
     (if 32 \<notin> set s then quote [] s
      else (case quote [32] s of
              Inl e \<Rightarrow> Inl e
            | Inr q \<Rightarrow> Inr (map (\<lambda>c. if c = 32 then 43 else c) q)))"

definition yt_music_search :: "pystr \<Rightarrow> py_error + pystr" where
  "yt_music_search query =
     (case quote_plus query of
        Inl e \<Rightarrow> Inl e
      | Inr q \<Rightarrow> Inr (str ''https://music.youtube.com/search?q='' @ q))"

definition yt_search :: "pystr \<Rightarrow> py_error + pystr" where
  "yt_search query =
     (case quote_plus query of
        Inl e \<Rightarrow> Inl e
      | Inr q \<Rightarrow> Inr (str ''https://www.youtube.com/results?search_query='' @ q))"

text \<open>\<open>quote(query)\<close> has the default \<open>safe='/'\<close>.\<close>

definition spotify_search :: "pystr \<Rightarrow> py_error + pystr" where
  "spotify_search query =
     (case quote (str ''/'') query of
        Inl e \<Rightarrow> Inl e
      | Inr q \<Rightarrow> Inr (str ''https://open.spotify.com/search/'' @ q))"

definition brave_lyrics :: "pystr \<Rightarrow> py_error + pystr" where
  "brave_lyrics query =
     (case quote_plus (query @ str '' lyrics'') of
        Inl e \<Rightarrow> Inl e
      | Inr q \<Rightarrow> Inr (str ''https://search.brave.com/search?q='' @ q))"

section \<open>The oEmbed requests\<close>

text \<open>
  What the program does not hold itself is the record \<open>env\<close>: the table of \<^verbatim>\<open>\w\<close>
  beyond ASCII, \<open>str()\<close> of a value that is not a string, the remote end of
  \<open>session.get\<close> (a response with its status, declared content type and body, or a
  timeout or transport error raised as an exception), what the JSON decoder makes of a
  body (\<open>None\<close> when it raises), and whether Discord accepts a reply with all embeds or
  a message with one.
\<close>

record request =
  req_url :: pystr
  req_timeout :: nat

record response =
  resp_status :: nat
  resp_content_type :: pystr
  resp_body :: "nat list"

datatype http_failure = TimedOut | TransportError

datatype http_outcome = Responded response | Failed http_failure

record embed =
  embed_title :: pystr
  embed_color :: nat
  embed_description :: "pystr option"
  embed_fields :: "(pystr \<times> pystr \<times> bool) list"
  embed_thumbnail :: "json option"
  embed_footer :: pystr

record env =
  unicode_word :: "nat \<Rightarrow> bool"
  py_str :: "json \<Rightarrow> pystr"
  http_get :: "request \<Rightarrow> http_outcome"
  json_loads :: "nat list \<Rightarrow> json option"
  reply_ok :: "embed list \<Rightarrow> bool"
  send_ok :: "embed \<Rightarrow> bool"

text \<open>
  The cog's own state: the lazily created session, and the requests sent so far.
\<close>

datatype session_state = NoSession | SessionOpen | SessionClosed

record cog =
  session :: session_state
  requests :: "request list"

definition get_session :: "cog \<Rightarrow> cog" where
  "get_session st =
     (if session st = NoSession \<or> session st = SessionClosed
      then st\<lparr>session := SessionOpen\<rparr> else st)"

definition cog_unload :: "cog \<Rightarrow> cog" where
  "cog_unload st = (if session st = SessionOpen then st\<lparr>session := SessionClosed\<rparr> else st)"

text \<open>
  \<open>ClientResponse.json(content_type=...)\<close>: with a content type given, a response that
  declares another one raises; with \<open>content_type=None\<close> the check is skipped. Then the
  body is decoded.
\<close>

definition resp_json :: "env \<Rightarrow> pystr option \<Rightarrow> response \<Rightarrow> json option" where
  "resp_json env expected resp =
     (case expected of
        Some ct \<Rightarrow>
          (if resp_content_type resp = ct then json_loads env (resp_body resp) else None)
      | None \<Rightarrow> json_loads env (resp_body resp))"

text \<open>
  One \<open>session.get\<close> with \<open>ClientTimeout(total=10)\<close>; \<open>except Exception: pass\<close> turns
  every exception, of the request and of the decoding, into \<open>None\<close>.
\<close>

definition oembed_request :: "env \<Rightarrow> cog \<Rightarrow> pystr \<Rightarrow> json \<times> cog" where
  "oembed_request env st oembed =
     (let st1 = get_session st;
          req = \<lparr>req_url = oembed, req_timeout = 10\<rparr>;
          st2 = st1\<lparr>requests := requests st1 @ [req]\<rparr>
      in (case http_get env req of
            Responded resp \<Rightarrow>
              (if resp_status resp = 200
               then (case resp_json env None resp of Some v \<Rightarrow> (v, st2) | None \<Rightarrow> (JNull, st2))
               else (JNull, st2))
          | Failed f \<Rightarrow> (JNull, st2)))"

definition fetch_spotify_oembed :: "env \<Rightarrow> cog \<Rightarrow> pystr \<Rightarrow> json \<times> cog" where
  "fetch_spotify_oembed env st track_id =
     (let url = str ''https://open.spotify.com/track/'' @ track_id;
          oembed = str ''https://open.spotify.com/oembed?url='' @ url
      in oembed_request env st oembed)"

definition fetch_youtube_oembed :: "env \<Rightarrow> cog \<Rightarrow> pystr \<Rightarrow> json \<times> cog" where
  "fetch_youtube_oembed env st video_id =
     (let url = str ''https://www.youtube.com/watch?v='' @ video_id;
          oembed = str ''https://www.youtube.com/oembed?url='' @ url @ str ''&format=json''
      in oembed_request env st oembed)"

section \<open>Embed builders\<close>

definition SPOTIFY_GREEN :: nat where
  "SPOTIFY_GREEN = 0x1DB954"

definition YOUTUBE_RED :: nat where
  "YOUTUBE_RED = 0xFF0000"

text \<open>
  The title reaches the link builders first; they raise \<open>TypeError\<close> on a value that
  is not a string. The thumbnail is set when \<^verbatim>\<open>show_thumb and thumbnail\<close> is true.
\<close>

definition build_spotify_embed :: "json \<Rightarrow> json \<Rightarrow> bool \<Rightarrow> py_error + embed" where
  "build_spotify_embed title thumbnail show_thumb =
     (case title of
        JStr t \<Rightarrow>
          (case yt_music_search t of Inl e \<Rightarrow> Inl e | Inr yt_music \<Rightarrow>
           case yt_search t of Inl e \<Rightarrow> Inl e | Inr yt_regular \<Rightarrow>
           case brave_lyrics t of Inl e \<Rightarrow> Inl e | Inr brave \<Rightarrow>
             Inr \<lparr>embed_title = [0x1F3B5, 32, 32] @ t,
                  embed_color = SPOTIFY_GREEN,
                  embed_description = None,
                  embed_fields =
                    [([0x1F534] @ str ''  YouTube'',
                      str ''[YouTube Music]('' @ yt_music @ str '')'' @ [10]
                        @ str ''[YouTube]('' @ yt_regular @ str '')'', True),
                     ([0x1F4DD] @ str ''  Lyrics'',
                      str ''[Brave Search]('' @ brave @ str '')'', True)],
                  embed_thumbnail =
                    (if show_thumb \<and> truthy thumbnail then Some thumbnail else None),
                  embed_footer =
                    str ''MusicLinker  '' @ [0x2022] @ str ''  Spotify '' @ [0x279C]
                      @ str '' YouTube''\<rparr>)
      | other \<Rightarrow> Inl TypeError)"

text \<open>
  \<open>_clean_yt_title\<close> comes first and raises \<open>TypeError\<close> on a title that is not a
  string. The description is set when \<^verbatim>\<open>if author:\<close> holds.
\<close>

definition format_value :: "env \<Rightarrow> json \<Rightarrow> pystr" where
  "format_value env v = (case v of JStr s \<Rightarrow> s | other \<Rightarrow> py_str env v)"

definition build_youtube_embed :: "env \<Rightarrow> json \<Rightarrow> json \<Rightarrow> json \<Rightarrow> bool \<Rightarrow> py_error + embed" where
  "build_youtube_embed env raw_title author thumbnail show_thumb =
     (case raw_title of
        JStr raw \<Rightarrow>
          (let clean = clean_yt_title (unicode_word env) raw
           in case spotify_search clean of Inl e \<Rightarrow> Inl e | Inr spotify \<Rightarrow>
              case brave_lyrics clean of Inl e \<Rightarrow> Inl e | Inr brave \<Rightarrow>
                Inr \<lparr>embed_title = [0x1F3B5, 32, 32] @ raw,
                     embed_color = YOUTUBE_RED,
                     embed_description =
                       (if truthy author
                        then Some (str ''by **'' @ format_value env author @ str ''**'')
                        else None),
                     embed_fields =
                       [([0x1F7E2] @ str ''  Spotify'',
                         str ''[Search on Spotify]('' @ spotify @ str '')'', True),
                        ([0x1F4DD] @ str ''  Lyrics'',
                         str ''[Brave Search]('' @ brave @ str '')'', True)],
                     embed_thumbnail =
                       (if show_thumb \<and> truthy thumbnail then Some thumbnail else None),
                     embed_footer =
                       str ''MusicLinker  '' @ [0x2022] @ str ''  YouTube '' @ [0x279C]
                         @ str '' Spotify''\<rparr>)
      | other \<Rightarrow> Inl TypeError)"

section \<open>Per-guild settings (the \<open>Config\<close> store and the settings commands)\<close>

text \<open>
  \<^verbatim>\<open>default_guild = {"enabled": True, "show_thumbnail": True, "max_links_per_message": 3}\<close>.
  The store keeps one record for each guild; a guild that was never written reads the
  defaults, so the store is a total function from guild ids.
\<close>

record guild_conf =
  enabled :: bool
  show_thumbnail :: bool
  max_links_per_message :: int

definition default_guild :: guild_conf where
  "default_guild = \<lparr>enabled = True, show_thumbnail = True, max_links_per_message = 3\<rparr>"

type_synonym config = "nat \<Rightarrow> guild_conf"

definition config_init :: config where
  "config_init = (\<lambda>g. default_guild)"

text \<open>What a settings command sends back with \<open>ctx.send\<close>, kept as structure.\<close>

datatype reply =
    SettingsView bool bool int
  | NowEnabled bool
  | ThumbnailsShown bool
  | MaxLinksSet int

definition musiclinker :: "config \<Rightarrow> nat \<Rightarrow> config \<times> reply" where
  "musiclinker cfg g =
     (cfg, SettingsView (enabled (cfg g)) (show_thumbnail (cfg g))
             (max_links_per_message (cfg g)))"

definition ml_toggle :: "config \<Rightarrow> nat \<Rightarrow> config \<times> reply" where
  "ml_toggle cfg g =
     (let current = enabled (cfg g)
      in (cfg(g := (cfg g)\<lparr>enabled := \<not> current\<rparr>), NowEnabled (\<not> current)))"

definition ml_thumbnail :: "config \<Rightarrow> nat \<Rightarrow> config \<times> reply" where
  "ml_thumbnail cfg g =
     (let current = show_thumbnail (cfg g)
      in (cfg(g := (cfg g)\<lparr>show_thumbnail := \<not> current\<rparr>), ThumbnailsShown (\<not> current)))"

text \<open>\<^verbatim>\<open>limit = max(1, min(10, limit))\<close>, then the clamped value is stored and echoed.\<close>

definition ml_maxlinks :: "config \<Rightarrow> nat \<Rightarrow> int \<Rightarrow> config \<times> reply" where
  "ml_maxlinks cfg g limit =
     (let limit' = max 1 (min 10 limit)
      in (cfg(g := (cfg g)\<lparr>max_links_per_message := limit'\<rparr>), MaxLinksSet limit'))"

text \<open>A settings operation: a command of the group, invoked in a guild.\<close>

datatype command = View | Toggle | Thumbnail | MaxLinks int

fun run_command :: "config \<Rightarrow> nat \<times> command \<Rightarrow> config" where
  "run_command cfg (g, View) = fst (musiclinker cfg g)"
| "run_command cfg (g, Toggle) = fst (ml_toggle cfg g)"
| "run_command cfg (g, Thumbnail) = fst (ml_thumbnail cfg g)"
| "run_command cfg (g, MaxLinks limit) = fst (ml_maxlinks cfg g limit)"

definition run_commands :: "config \<Rightarrow> (nat \<times> command) list \<Rightarrow> config" where
  "run_commands cfg ops = foldl run_command cfg ops"

definition links_in_range :: "config \<Rightarrow> bool" where
  "links_in_range cfg =
     (\<forall>g. 1 \<le> max_links_per_message (cfg g) \<and> max_links_per_message (cfg g) \<le> 10)"

section \<open>The listener\<close>

record message =
  author_bot :: bool
  guild :: "nat option"
  is_command :: bool
  content :: pystr

text \<open>
  The body of the Spotify loop after the check of the cap: the request, then
  \<^verbatim>\<open>if data:\<close>, the two \<open>data.get\<close> and the builder. \<open>None\<close> is a match that
  appends nothing, \<open>Some (Inl e)\<close> an exception, \<open>Some (Inr em)\<close> the embed appended.
\<close>

definition resolve_spotify :: "env \<Rightarrow> bool \<Rightarrow> cog \<Rightarrow> pystr \<Rightarrow> (py_error + embed) option \<times> cog" where
  "resolve_spotify env show_thumb st track_id =
     (let (data, st') = fetch_spotify_oembed env st track_id
      in if truthy data
         then (case dict_get data (str ''title'') (JStr (str ''Unknown Track'')) of
                 Inl e \<Rightarrow> (Some (Inl e), st')
               | Inr title \<Rightarrow>
                   (case dict_get data (str ''thumbnail_url'') JNull of
                      Inl e \<Rightarrow> (Some (Inl e), st')
                    | Inr thumb \<Rightarrow> (Some (build_spotify_embed title thumb show_thumb), st')))
         else (None, st'))"

definition resolve_youtube :: "env \<Rightarrow> bool \<Rightarrow> cog \<Rightarrow> pystr \<Rightarrow> (py_error + embed) option \<times> cog" where
  "resolve_youtube env show_thumb st video_id =
     (let (data, st') = fetch_youtube_oembed env st video_id
      in if truthy data
         then (case dict_get data (str ''title'') (JStr (str ''Unknown'')) of
                 Inl e \<Rightarrow> (Some (Inl e), st')
               | Inr raw_title \<Rightarrow>
                   (case dict_get data (str ''author_name'') (JStr []) of
                      Inl e \<Rightarrow> (Some (Inl e), st')
                    | Inr author \<Rightarrow>
                        (case dict_get data (str ''thumbnail_url'') JNull of
                           Inl e \<Rightarrow> (Some (Inl e), st')
                         | Inr thumb \<Rightarrow>
                             (Some (build_youtube_embed env raw_title author thumb show_thumb),
                              st'))))
         else (None, st'))"

text \<open>
  \<^verbatim>\<open>for match in RE.finditer(content): if len(embeds) >= max_links: break ...\<close>,
  over the ids the matches captured; \<open>resolve\<close> is the body for the platform.
\<close>

fun embed_loop :: "(cog \<Rightarrow> pystr \<Rightarrow> (py_error + embed) option \<times> cog) \<Rightarrow> int \<Rightarrow> embed list
    \<Rightarrow> cog \<Rightarrow> pystr list \<Rightarrow> (py_error + embed list) \<times> cog" where
  "embed_loop resolve max_links embeds st [] = (Inr embeds, st)"
| "embed_loop resolve max_links embeds st (i # ids) =
     (if int (length embeds) \<ge> max_links then (Inr embeds, st)
      else (case resolve st i of
              (None, st') \<Rightarrow> embed_loop resolve max_links embeds st' ids
            | (Some (Inl e), st') \<Rightarrow> (Inl e, st')
            | (Some (Inr em), st') \<Rightarrow> embed_loop resolve max_links (embeds @ [em]) st' ids))"

text \<open>
  The reply: nothing without embeds, all embeds in one reply, and when Discord refuses
  that, each embed in a message of its own, those refused again being dropped.
\<close>

definition deliver :: "env \<Rightarrow> embed list \<Rightarrow> embed list" where
  "deliver env embeds =
     (if embeds = [] then []
      else if reply_ok env embeds then embeds
      else filter (send_ok env) embeds)"

text \<open>
  \<open>on_message\<close> returns the list \<open>embeds\<close> as it stands when the reply is sent, or the
  exception that ended the handler, and the cog's state. The early returns leave the
  list empty.
\<close>

definition on_message :: "env \<Rightarrow> config \<Rightarrow> cog \<Rightarrow> message \<Rightarrow> (py_error + embed list) \<times> cog" where
  "on_message env cfg st msg =
     (case guild msg of
        None \<Rightarrow> (Inr [], st)
      | Some g \<Rightarrow>
          (if author_bot msg then (Inr [], st)
           else if \<not> enabled (cfg g) then (Inr [], st)
           else if is_command msg then (Inr [], st)
           else
             (let show_thumb = show_thumbnail (cfg g);
                  max_links = max_links_per_message (cfg g);
                  W = unicode_word env
              in (case embed_loop (resolve_spotify env show_thumb) max_links [] st
                         (map group1 (finditer W SPOTIFY_RE (content msg))) of
                    (Inl e, st1) \<Rightarrow> (Inl e, st1)
                  | (Inr embeds, st1) \<Rightarrow>
                      embed_loop (resolve_youtube env show_thumb) max_links embeds st1
                        (map group1 (finditer W YOUTUBE_RE (content msg)))))))"

definition on_message_sends :: "env \<Rightarrow> config \<Rightarrow> cog \<Rightarrow> message \<Rightarrow> embed list" where
  "on_message_sends env cfg st msg =
     (case fst (on_message env cfg st msg) of Inl e \<Rightarrow> [] | Inr embeds \<Rightarrow> deliver env embeds)"

section \<open>Notions used to state the properties\<close>

text \<open>
  The request each fetch sends, and what a response's body decodes to (\<open>JNull\<close>, that
  is \<open>None\<close>, when the decoder raises).
\<close>

definition spotify_req :: "pystr \<Rightarrow> request" where
  "spotify_req track_id =
     \<lparr>req_url = str ''https://open.spotify.com/oembed?url=https://open.spotify.com/track/''
                  @ track_id,
      req_timeout = 10\<rparr>"

definition youtube_req :: "pystr \<Rightarrow> request" where
  "youtube_req video_id =
     \<lparr>req_url = str ''https://www.youtube.com/oembed?url=https://www.youtube.com/watch?v=''
                  @ video_id @ str ''&format=json'',
      req_timeout = 10\<rparr>"

definition decoded :: "env \<Rightarrow> response \<Rightarrow> json" where
  "decoded env resp = (case json_loads env (resp_body resp) of Some v \<Rightarrow> v | None \<Rightarrow> JNull)"

text \<open>
  A remote end for concrete runs: a request whose URL is listed in \<open>missing\<close> is
  answered with status 404, any other with status 200, a plain-text content type and the
  request's URL as body, and the decoder makes the object \<^verbatim>\<open>{"title": body}\<close> of a
  body.
\<close>

definition test_env :: "pystr list \<Rightarrow> env" where
  "test_env missing =
     \<lparr>unicode_word = (\<lambda>c. False),
      py_str = (\<lambda>v. str ''?''),
      http_get = (\<lambda>r. if req_url r \<in> set missing
                       then Responded \<lparr>resp_status = 404, resp_content_type = str ''text/html'',
                                       resp_body = []\<rparr>
                       else Responded \<lparr>resp_status = 200, resp_content_type = str ''text/plain'',
                                       resp_body = req_url r\<rparr>),
      json_loads = (\<lambda>b. Some (JDict [(str ''title'', JStr b)])),
      reply_ok = (\<lambda>e. True),
      send_ok = (\<lambda>e. True)\<rparr>"

definition cog_init :: cog where
  "cog_init = \<lparr>session = NoSession, requests = []\<rparr>"

text \<open>
  What a match contributes, seen apart from the cog's state: \<open>None\<close> when the metadata
  is unavailable, an exception, or the display unit. \<open>units\<close> lists the contributions of
  all the matches of a text in the order of the two loops, the Spotify matches first, and
  \<open>resolved\<close> keeps the display units of such a list.
\<close>

definition spotify_unit :: "env \<Rightarrow> bool \<Rightarrow> pystr \<Rightarrow> (py_error + embed) option" where
  "spotify_unit env show_thumb track_id = fst (resolve_spotify env show_thumb cog_init track_id)"

definition youtube_unit :: "env \<Rightarrow> bool \<Rightarrow> pystr \<Rightarrow> (py_error + embed) option" where
  "youtube_unit env show_thumb video_id = fst (resolve_youtube env show_thumb cog_init video_id)"

definition units :: "env \<Rightarrow> bool \<Rightarrow> pystr \<Rightarrow> (py_error + embed) option list" where
  "units env show_thumb s =
     map (spotify_unit env show_thumb) (map group1 (finditer (unicode_word env) SPOTIFY_RE s))
     @ map (youtube_unit env show_thumb) (map group1 (finditer (unicode_word env) YOUTUBE_RE s))"

fun resolved :: "(py_error + embed) option list \<Rightarrow> embed list" where
  "resolved [] = []"
| "resolved (Some (Inr e) # us) = e # resolved us"
| "resolved (u # us) = resolved us"



text \<open>A remote end that answers every request with status 200 and the given object.\<close>

definition titled_env :: "json \<Rightarrow> env" where
  "titled_env data = (test_env [])\<lparr>json_loads := (\<lambda>b. Some data)\<rparr>"

text \<open>
  A message with five links, three Spotify tracks and two YouTube videos, written by a
  user in guild 0.
\<close>

definition five_links :: message where
  "five_links =
     \<lparr>author_bot = False, guild = Some 0, is_command = False,
      content = str ''https://open.spotify.com/track/AAAAAAAAAAAAAAAAAAAAAA ''
                @ str ''https://open.spotify.com/track/BBBBBBBBBBBBBBBBBBBBBB ''
                @ str ''https://open.spotify.com/track/CCCCCCCCCCCCCCCCCCCCCC ''
                @ str ''https://youtu.be/DDDDDDDDDDD https://youtu.be/EEEEEEEEEEE''\<rparr>"

section \<open>Evaluating the patterns on concrete strings\<close>

lemmas rx_defs = clean_yt_title_def clean_steps_def re_sub_def YT_TITLE_NOISE_def
  YT_TITLE_KEYWORDS_def TRAILING_SEPARATORS_def LEADING_SEPARATORS_def WHITESPACE_RUN_def
  separators_def lits_def litsI_def rng_def ch_def str_def strip_def
  is_space_def ascii_word_def is_word_def lower_ascii_def ci_eq_def word_at_def Let_def
  SPOTIFY_RE_def YOUTUBE_RE_def finditer_def

lemmas url_defs = yt_music_search_def yt_search_def spotify_search_def brave_lyrics_def
  quote_plus_def quote_def quote_byte_def always_safe_def hexdigit_def utf8_encode_def

lemmas fetch_defs = fetch_spotify_oembed_def fetch_youtube_oembed_def oembed_request_def
  get_session_def resp_json_def

section \<open>The title cleaner: the fallback\<close>

lemma clean_remastered: "clean_steps W (str ''REMASTERED'') = []"
  by (simp add: rx_defs)

lemma in_set_sub_from:
  "x \<in> set (sub_from W r repl prev s skip) \<Longrightarrow> x \<in> set repl \<or> x \<in> set s"
proof (induction s arbitrary: prev skip)
  case Nil
  then show ?case
    by (cases "skip = 0"; cases "rmatch W [r] prev [] None") simp_all
next
  case (Cons c cs)
  show ?case
  proof (cases "skip > 0")
    case True
    with Cons.prems Cons.IH [of "c # prev" "skip - 1"] show ?thesis by auto
  next
    case False
    show ?thesis
    proof (cases "rmatch W [r] prev (c # cs) None")
      case None
      with False Cons.prems Cons.IH [of "c # prev" 0] show ?thesis by auto
    next
      case (Some p)
      obtain cap rest' where p: "p = (cap, rest')" by (cases p)
      show ?thesis
      proof (cases "Suc (length cs) - length rest' = 0")
        case True
        with False Some p Cons.prems Cons.IH [of "c # prev" 0] show ?thesis
          by (auto simp: Let_def)
      next
        case n: False
        with False Some p Cons.prems
          Cons.IH [of "c # prev" "Suc (length cs) - length rest' - 1"] show ?thesis
          by (auto simp: Let_def)
      qed
    qed
  qed
qed

lemma set_re_sub: "set (re_sub W r repl s) \<subseteq> set repl \<union> set s"
  using in_set_sub_from [of _ W r repl "[]" s 0] by (auto simp: re_sub_def)

lemma strip_Nil_iff: "strip s = [] \<longleftrightarrow> (\<forall>c\<in>set s. is_space c)"
proof
  assume "strip s = []"
  then have e: "\<forall>c\<in>set (dropWhile is_space s). is_space c"
    by (simp add: strip_def dropWhile_eq_Nil_conv)
  show "\<forall>c\<in>set s. is_space c"
  proof (cases "dropWhile is_space s")
    case Nil
    then show ?thesis by (simp add: dropWhile_eq_Nil_conv)
  next
    case (Cons x xs)
    then have "\<not> is_space x" by (metis hd_dropWhile list.sel(1) list.distinct(1))
    with e Cons show ?thesis by simp
  qed
next
  assume "\<forall>c\<in>set s. is_space c"
  then show "strip s = []" by (auto simp: strip_def dest: set_dropWhileD)
qed

lemma clean_steps_blank:
  assumes "\<forall>c\<in>set t. is_space c"
  shows "clean_steps W t = []"
proof -
  let ?a = "re_sub W YT_TITLE_NOISE [] t"
  let ?b = "re_sub W YT_TITLE_KEYWORDS [] ?a"
  let ?c = "re_sub W TRAILING_SEPARATORS [] ?b"
  let ?d = "re_sub W LEADING_SEPARATORS [] ?c"
  let ?e = "re_sub W WHITESPACE_RUN (str '' '') ?d"
  have "set ?a \<subseteq> set t" using set_re_sub [of W YT_TITLE_NOISE "[]" t] by simp
  moreover have "set ?b \<subseteq> set ?a" using set_re_sub [of W YT_TITLE_KEYWORDS "[]" ?a] by simp
  moreover have "set ?c \<subseteq> set ?b" using set_re_sub [of W TRAILING_SEPARATORS "[]" ?b] by simp
  moreover have "set ?d \<subseteq> set ?c" using set_re_sub [of W LEADING_SEPARATORS "[]" ?c] by simp
  moreover have "set ?e \<subseteq> {32} \<union> set ?d"
    using set_re_sub [of W WHITESPACE_RUN "str '' ''" ?d] by (simp add: str_def)
  moreover have "is_space 32" by (simp add: is_space_def)
  ultimately have "\<forall>c\<in>set ?e. is_space c" using assms by blast
  then have "strip ?e = []" by (simp add: strip_Nil_iff)
  then show ?thesis by (simp add: clean_steps_def Let_def)
qed

text \<open>
  C3. If the cleaning steps leave the empty string, the title cleaner returns the
  original title trimmed instead; it returns a non-empty query whenever the title has a
  character that is not whitespace, and the empty string for every title made of
  whitespace only (the empty title among them); and
  \<open>clean("REMASTERED") = "REMASTERED"\<close>, the steps leaving nothing of that title.
\<close>

theorem clean_falls_back:
  "(clean_steps W t = [] \<longrightarrow> clean_yt_title W t = strip t)
   \<and> (strip t \<noteq> [] \<longrightarrow> clean_yt_title W t \<noteq> [])
   \<and> ((\<forall>c\<in>set t. is_space c) \<longrightarrow> clean_yt_title W t = [])
   \<and> clean_steps W (str ''REMASTERED'') = []
   \<and> clean_yt_title W (str ''REMASTERED'') = str ''REMASTERED''"
proof -
  have "clean_yt_title W (str ''REMASTERED'') = strip (str ''REMASTERED'')"
    by (simp add: clean_yt_title_def clean_remastered)
  also have "\<dots> = str ''REMASTERED''"
    by (simp add: strip_def str_def is_space_def)
  finally have r: "clean_yt_title W (str ''REMASTERED'') = str ''REMASTERED''" .
  have b: "clean_yt_title W t = []" if "\<forall>c\<in>set t. is_space c"
    using that clean_steps_blank [OF that, of W] strip_Nil_iff [of t]
    by (simp add: clean_yt_title_def)
  show ?thesis
    using r b by (simp add: clean_yt_title_def Let_def clean_remastered)
qed

theorem clean_falls_back_witness:
  "clean_steps (\<lambda>c. False) (str ''(live)'') = []
   \<and> clean_yt_title (\<lambda>c. False) (str ''(live)'') = str ''(live)''
   \<and> clean_yt_title (\<lambda>c. False) [9, 32, 0xA0] = []"
proof -
  have e: "clean_steps (\<lambda>c. False) (str ''(live)'') = []"
    by (simp add: rx_defs)
  have s: "strip (str ''(live)'') = str ''(live)''"
    by (simp add: strip_def str_def is_space_def)
  have w: "\<forall>c\<in>set [9, 32, 0xA0::nat]. is_space c"
    by (simp add: is_space_def)
  show ?thesis
    using clean_falls_back [of "\<lambda>c. False" "str ''(live)''"]
      clean_falls_back [of "\<lambda>c. False" "[9, 32, 0xA0]"] e s w by simp
qed

text \<open>
  The cleaner does return the empty string: for the empty title and for a title of three
  blanks.
\<close>

theorem clean_empty_counterexample:
  "(\<forall>W. clean_yt_title W [] = []) \<and> (\<forall>W. clean_yt_title W (str ''   '') = [])"
  by (simp add: rx_defs)

section \<open>Settings: the stored limit stays in range\<close>

lemma run_command_in_range:
  "links_in_range cfg \<Longrightarrow> links_in_range (run_command cfg op)"
proof (cases op)
  case (Pair g c)
  assume "links_in_range cfg"
  then show ?thesis
    unfolding Pair
    by (cases c)
       (auto simp: links_in_range_def musiclinker_def ml_toggle_def ml_thumbnail_def
          ml_maxlinks_def Let_def)
qed

lemma foldl_run_command_in_range:
  "links_in_range cfg \<Longrightarrow> links_in_range (foldl run_command cfg ops)"
  by (induction ops arbitrary: cfg) (simp_all add: run_command_in_range)

lemma config_init_in_range: "links_in_range config_init"
  by (simp add: links_in_range_def config_init_def default_guild_def)

text \<open>
  C6. Whatever integer the max-links command receives, the value it stores for the guild
  lies in 1..10 (15 is stored as 10, 0 as 1), and after any sequence of settings
  commands, in any guilds, starting from the defaults, every guild's stored value lies
  in 1..10.
\<close>

theorem maxlinks_stored_in_range:
  "1 \<le> max_links_per_message (fst (ml_maxlinks cfg g limit) g)
   \<and> max_links_per_message (fst (ml_maxlinks cfg g limit) g) \<le> 10
   \<and> max_links_per_message (fst (ml_maxlinks cfg g 15) g) = 10
   \<and> max_links_per_message (fst (ml_maxlinks cfg g 0) g) = 1
   \<and> links_in_range (run_commands config_init ops)"
proof -
  have "links_in_range (run_commands config_init ops)"
    unfolding run_commands_def
    by (rule foldl_run_command_in_range) (rule config_init_in_range)
  then show ?thesis
    by (simp add: ml_maxlinks_def Let_def)
qed

section \<open>The fetches: one request, no retry\<close>

lemma oembed_request_sent:
  "requests (snd (oembed_request env st u)) = requests st @ [\<lparr>req_url = u, req_timeout = 10\<rparr>]"
  by (simp add: oembed_request_def Let_def get_session_def
           split: http_outcome.split option.split)

lemma oembed_request_result:
  "fst (oembed_request env st u) =
     (case http_get env \<lparr>req_url = u, req_timeout = 10\<rparr> of
        Failed f \<Rightarrow> JNull
      | Responded resp \<Rightarrow> if resp_status resp = 200 then decoded env resp else JNull)"
  by (simp add: oembed_request_def Let_def resp_json_def decoded_def
           split: http_outcome.split option.split)

text \<open>
  C7. A fetch, for any track or video id, adds exactly one request to those sent, with
  the total timeout 10 and the endpoint's URL built from the id. When the request
  raises (a timeout or a transport error) the fetch returns \<open>None\<close>; when it is
  answered with a status other than 200 the fetch returns \<open>None\<close>; when it is answered
  with status 200 the fetch returns what the body decodes to, whatever content type the
  response declares (\<open>None\<close> when the decoder raises).
\<close>

theorem fetch_single_request:
  "requests (snd (fetch_spotify_oembed env st i)) = requests st @ [spotify_req i]
   \<and> requests (snd (fetch_youtube_oembed env st i)) = requests st @ [youtube_req i]
   \<and> (\<forall>f. http_get env (spotify_req i) = Failed f
          \<longrightarrow> fst (fetch_spotify_oembed env st i) = JNull)
   \<and> (\<forall>f. http_get env (youtube_req i) = Failed f
          \<longrightarrow> fst (fetch_youtube_oembed env st i) = JNull)
   \<and> (\<forall>resp. http_get env (spotify_req i) = Responded resp
          \<longrightarrow> fst (fetch_spotify_oembed env st i)
              = (if resp_status resp = 200 then decoded env resp else JNull))
   \<and> (\<forall>resp. http_get env (youtube_req i) = Responded resp
          \<longrightarrow> fst (fetch_youtube_oembed env st i)
              = (if resp_status resp = 200 then decoded env resp else JNull))"
proof -
  have s: "fetch_spotify_oembed env st i = oembed_request env st (req_url (spotify_req i))"
    by (simp add: fetch_spotify_oembed_def Let_def spotify_req_def str_def)
  have y: "fetch_youtube_oembed env st i = oembed_request env st (req_url (youtube_req i))"
    by (simp add: fetch_youtube_oembed_def Let_def youtube_req_def str_def)
  have rs: "\<lparr>req_url = req_url (spotify_req i), req_timeout = 10\<rparr> = spotify_req i"
    by (simp add: spotify_req_def)
  have ry: "\<lparr>req_url = req_url (youtube_req i), req_timeout = 10\<rparr> = youtube_req i"
    by (simp add: youtube_req_def)
  show ?thesis
    unfolding s y
    by (simp add: oembed_request_sent oembed_request_result rs ry)
qed

theorem fetch_single_request_witness:
  "fst (fetch_spotify_oembed ((test_env [])\<lparr>http_get := \<lambda>r. Failed TimedOut\<rparr>) cog_init
         (str ''a'')) = JNull
   \<and> fst (fetch_youtube_oembed (test_env [req_url (youtube_req (str ''b''))]) cog_init
         (str ''b'')) = JNull
   \<and> fst (fetch_spotify_oembed (test_env []) cog_init (str ''a''))
       = JDict [(str ''title'', JStr (req_url (spotify_req (str ''a''))))]
   \<and> requests (snd (fetch_spotify_oembed (test_env []) cog_init (str ''a'')))
       = [spotify_req (str ''a'')]"
  using fetch_single_request [of "(test_env [])\<lparr>http_get := \<lambda>r. Failed TimedOut\<rparr>" cog_init
      "str ''a''"]
    fetch_single_request [of "test_env [req_url (youtube_req (str ''b''))]" cog_init
      "str ''b''"]
    fetch_single_request [of "test_env []" cog_init "str ''a''"]
  by (simp add: test_env_def decoded_def cog_init_def)

section \<open>The search links\<close>















section \<open>The YouTube display unit: raw title, normalized links\<close>

lemma build_youtube_embed_Inr:
  assumes "build_youtube_embed env (JStr raw) author thumb show_thumb = Inr e"
  shows "\<exists>spotify brave.
      spotify_search (clean_yt_title (unicode_word env) raw) = Inr spotify
    \<and> brave_lyrics (clean_yt_title (unicode_word env) raw) = Inr brave
    \<and> e = \<lparr>embed_title = [0x1F3B5, 32, 32] @ raw,
           embed_color = YOUTUBE_RED,
           embed_description =
             (if truthy author then Some (str ''by **'' @ format_value env author @ str ''**'')
              else None),
           embed_fields =
             [([0x1F7E2] @ str ''  Spotify'',
               str ''[Search on Spotify]('' @ spotify @ str '')'', True),
              ([0x1F4DD] @ str ''  Lyrics'',
               str ''[Brave Search]('' @ brave @ str '')'', True)],
           embed_thumbnail = (if show_thumb \<and> truthy thumb then Some thumb else None),
           embed_footer =
             str ''MusicLinker  '' @ [0x2022] @ str ''  YouTube '' @ [0x279C]
               @ str '' Spotify''\<rparr>"
  using assms by (auto simp: build_youtube_embed_def Let_def split: sum.splits)

lemma build_youtube_embed_not_str:
  "build_youtube_embed env t author thumb show_thumb = Inr e \<Longrightarrow> \<exists>raw. t = JStr raw"
  by (cases t) (simp_all add: build_youtube_embed_def)

lemma resolve_youtube_Inr:
  assumes "fst (resolve_youtube env show_thumb st video_id) = Some (Inr e)"
  shows "\<exists>t author thumb.
      dict_get (fst (fetch_youtube_oembed env st video_id)) (str ''title'')
        (JStr (str ''Unknown'')) = Inr t
    \<and> dict_get (fst (fetch_youtube_oembed env st video_id)) (str ''author_name'')
        (JStr []) = Inr author
    \<and> dict_get (fst (fetch_youtube_oembed env st video_id)) (str ''thumbnail_url'')
        JNull = Inr thumb
    \<and> build_youtube_embed env t author thumb show_thumb = Inr e"
proof (cases "fst (fetch_youtube_oembed env st video_id)")
  case (JDict d)
  then have "build_youtube_embed env
      (case map_of d (str ''title'') of None \<Rightarrow> JStr (str ''Unknown'') | Some v \<Rightarrow> v)
      (case map_of d (str ''author_name'') of None \<Rightarrow> JStr [] | Some v \<Rightarrow> v)
      (case map_of d (str ''thumbnail_url'') of None \<Rightarrow> JNull | Some v \<Rightarrow> v) show_thumb
      = Inr e"
    using assms
    by (auto simp: resolve_youtube_def Let_def split_beta split: if_splits)
  with JDict show ?thesis by simp
qed (use assms in \<open>auto simp: resolve_youtube_def Let_def split_beta split: if_splits\<close>)

text \<open>
  C9. For every resolved YouTube match, that is, whenever the body of the YouTube loop
  appends a display unit, the unit's title is the note sign and the raw fetched title
  (the value of the key \<open>title\<close>, or the placeholder), not the normalized one. The
  normalized title occurs in the unit only as the query of the Spotify search link and of
  the lyrics link: the colour, the description, the thumbnail and the footer do not
  depend on it.
\<close>

theorem youtube_unit_title_is_raw:
  assumes "fst (resolve_youtube env show_thumb st video_id) = Some (Inr e)"
  shows "\<exists>raw author thumb spotify brave.
      dict_get (fst (fetch_youtube_oembed env st video_id)) (str ''title'')
        (JStr (str ''Unknown'')) = Inr (JStr raw)
    \<and> dict_get (fst (fetch_youtube_oembed env st video_id)) (str ''author_name'')
        (JStr []) = Inr author
    \<and> dict_get (fst (fetch_youtube_oembed env st video_id)) (str ''thumbnail_url'')
        JNull = Inr thumb
    \<and> spotify_search (clean_yt_title (unicode_word env) raw) = Inr spotify
    \<and> brave_lyrics (clean_yt_title (unicode_word env) raw) = Inr brave
    \<and> e = \<lparr>embed_title = [0x1F3B5, 32, 32] @ raw,
           embed_color = YOUTUBE_RED,
           embed_description =
             (if truthy author then Some (str ''by **'' @ format_value env author @ str ''**'')
              else None),
           embed_fields =
             [([0x1F7E2] @ str ''  Spotify'',
               str ''[Search on Spotify]('' @ spotify @ str '')'', True),
              ([0x1F4DD] @ str ''  Lyrics'',
               str ''[Brave Search]('' @ brave @ str '')'', True)],
           embed_thumbnail = (if show_thumb \<and> truthy thumb then Some thumb else None),
           embed_footer =
             str ''MusicLinker  '' @ [0x2022] @ str ''  YouTube '' @ [0x279C]
               @ str '' Spotify''\<rparr>"
proof -
  from resolve_youtube_Inr [OF assms] obtain t author thumb where
    t: "dict_get (fst (fetch_youtube_oembed env st video_id)) (str ''title'')
          (JStr (str ''Unknown'')) = Inr t"
    and a: "dict_get (fst (fetch_youtube_oembed env st video_id)) (str ''author_name'')
          (JStr []) = Inr author"
    and th: "dict_get (fst (fetch_youtube_oembed env st video_id)) (str ''thumbnail_url'')
          JNull = Inr thumb"
    and b: "build_youtube_embed env t author thumb show_thumb = Inr e"
    by blast
  from build_youtube_embed_not_str [OF b] obtain raw where raw: "t = JStr raw" ..
  from build_youtube_embed_Inr [OF b [unfolded raw]] t a th raw show ?thesis
    by blast
qed

theorem youtube_unit_title_is_raw_witness:
  "fst (resolve_youtube
         (titled_env (JDict [(str ''title'', JStr (str ''Artist - Song (Official Music Video)'')),
                             (str ''author_name'', JStr (str ''Artist''))]))
         True cog_init (str ''dQw4w9WgXcQ'')) =
     Some (Inr \<lparr>embed_title = [0x1F3B5, 32, 32] @ str ''Artist - Song (Official Music Video)'',
        embed_color = YOUTUBE_RED,
        embed_description = Some (str ''by **Artist**''),
        embed_fields =
          [([0x1F7E2] @ str ''  Spotify'',
            str ''[Search on Spotify](https://open.spotify.com/search/Artist%20-%20Song)'',
            True),
           ([0x1F4DD] @ str ''  Lyrics'',
            str ''[Brave Search](https://search.brave.com/search?q=Artist+-+Song+lyrics)'',
            True)],
        embed_thumbnail = None,
        embed_footer =
          str ''MusicLinker  '' @ [0x2022] @ str ''  YouTube '' @ [0x279C] @ str '' Spotify''\<rparr>)
   \<and> clean_yt_title (\<lambda>c. False) (str ''Artist - Song (Official Music Video)'')
       = str ''Artist - Song''"
    (is "?h \<and> ?c")
proof -
  have c: ?c
    by (simp add: rx_defs)
  have h: ?h
    by (simp add: resolve_youtube_def fetch_defs titled_env_def test_env_def cog_init_def
          build_youtube_embed_def format_value_def url_defs rx_defs)
  from youtube_unit_title_is_raw [OF h] h c show ?thesis
    by simp
qed

section \<open>Placeholders for missing metadata\<close>

lemma resolve_spotify_dict:
  assumes "fst (fetch_spotify_oembed env st i) = JDict d" and "d \<noteq> []"
  shows "fst (resolve_spotify env show_thumb st i) =
     Some (build_spotify_embed
       (case map_of d (str ''title'') of None \<Rightarrow> JStr (str ''Unknown Track'') | Some v \<Rightarrow> v)
       (case map_of d (str ''thumbnail_url'') of None \<Rightarrow> JNull | Some v \<Rightarrow> v)
       show_thumb)"
  using assms by (simp add: resolve_spotify_def Let_def split_beta)

lemma resolve_youtube_dict:
  assumes "fst (fetch_youtube_oembed env st i) = JDict d" and "d \<noteq> []"
  shows "fst (resolve_youtube env show_thumb st i) =
     Some (build_youtube_embed env
       (case map_of d (str ''title'') of None \<Rightarrow> JStr (str ''Unknown'') | Some v \<Rightarrow> v)
       (case map_of d (str ''author_name'') of None \<Rightarrow> JStr [] | Some v \<Rightarrow> v)
       (case map_of d (str ''thumbnail_url'') of None \<Rightarrow> JNull | Some v \<Rightarrow> v)
       show_thumb)"
  using assms by (simp add: resolve_youtube_def Let_def split_beta)

text \<open>
  C10. When the fetch returns a non-empty object, the title, the author and the
  thumbnail handed to the embed builders are the values of the keys \<open>title\<close>,
  \<open>author_name\<close> and \<open>thumbnail_url\<close> whenever the key is present, whatever the
  value, \<open>null\<close> included; the placeholders \<open>"Unknown Track"\<close> (Spotify title),
  \<open>"Unknown"\<close> (YouTube title) and \<open>""\<close> (author) are used only when the key is
  absent. A title that is present and \<open>null\<close> reaches the builder as \<open>None\<close>, where
  the link builder, respectively the title cleaner, raises \<open>TypeError\<close>.
\<close>

theorem placeholders_only_when_absent:
  "(fst (fetch_spotify_oembed env st i) = JDict d \<and> d \<noteq> [] \<longrightarrow>
      fst (resolve_spotify env show_thumb st i) =
        Some (build_spotify_embed
          (case map_of d (str ''title'') of
             None \<Rightarrow> JStr (str ''Unknown Track'') | Some v \<Rightarrow> v)
          (case map_of d (str ''thumbnail_url'') of None \<Rightarrow> JNull | Some v \<Rightarrow> v)
          show_thumb))
   \<and> (fst (fetch_youtube_oembed env st i) = JDict d \<and> d \<noteq> [] \<longrightarrow>
      fst (resolve_youtube env show_thumb st i) =
        Some (build_youtube_embed env
          (case map_of d (str ''title'') of None \<Rightarrow> JStr (str ''Unknown'') | Some v \<Rightarrow> v)
          (case map_of d (str ''author_name'') of None \<Rightarrow> JStr [] | Some v \<Rightarrow> v)
          (case map_of d (str ''thumbnail_url'') of None \<Rightarrow> JNull | Some v \<Rightarrow> v)
          show_thumb))
   \<and> (fst (fetch_spotify_oembed env st i) = JDict d \<and> map_of d (str ''title'') = Some JNull
        \<longrightarrow> fst (resolve_spotify env show_thumb st i) = Some (Inl TypeError))
   \<and> (fst (fetch_youtube_oembed env st i) = JDict d \<and> map_of d (str ''title'') = Some JNull
        \<longrightarrow> fst (resolve_youtube env show_thumb st i) = Some (Inl TypeError))"
proof -
  have n: "d \<noteq> []" if "map_of d (str ''title'') = Some JNull"
    using that by auto
  have s: "fst (resolve_spotify env show_thumb st i) = Some (Inl TypeError)"
    if "fst (fetch_spotify_oembed env st i) = JDict d"
      and "map_of d (str ''title'') = Some JNull"
    using resolve_spotify_dict [OF that(1) n [OF that(2)], of show_thumb] that(2)
    by (simp add: build_spotify_embed_def)
  have y: "fst (resolve_youtube env show_thumb st i) = Some (Inl TypeError)"
    if "fst (fetch_youtube_oembed env st i) = JDict d"
      and "map_of d (str ''title'') = Some JNull"
    using resolve_youtube_dict [OF that(1) n [OF that(2)], of show_thumb] that(2)
    by (simp add: build_youtube_embed_def)
  show ?thesis
    using s y resolve_spotify_dict [of env st i d show_thumb]
      resolve_youtube_dict [of env st i d show_thumb]
    by blast
qed

theorem placeholders_only_when_absent_witness:
  "fst (resolve_spotify (titled_env (JDict [(str ''title'', JNull)])) True cog_init (str ''a''))
     = Some (Inl TypeError)
   \<and> fst (resolve_youtube (titled_env (JDict [(str ''title'', JNull)])) True cog_init (str ''a''))
     = Some (Inl TypeError)
   \<and> fst (resolve_spotify (titled_env (JDict [(str ''thumbnail_url'', JStr (str ''u''))])) True
           cog_init (str ''a''))
     = Some (build_spotify_embed (JStr (str ''Unknown Track'')) (JStr (str ''u'')) True)
   \<and> fst (resolve_youtube (titled_env (JDict [(str ''title'', JStr (str ''t'')),
                                               (str ''author_name'', JNull)])) True
           cog_init (str ''a''))
     = Some (build_youtube_embed
               (titled_env (JDict [(str ''title'', JStr (str ''t'')),
                                   (str ''author_name'', JNull)]))
               (JStr (str ''t'')) JNull JNull True)"
proof -
  have f: "fst (fetch_spotify_oembed (titled_env v) cog_init t) = v"
    "fst (fetch_youtube_oembed (titled_env v) cog_init t) = v" for v t
    by (simp_all add: fetch_defs titled_env_def test_env_def cog_init_def Let_def)
  have n: "build_spotify_embed JNull th b = Inl TypeError"
    "build_youtube_embed env JNull au th b = Inl TypeError" for env au th b
    by (simp_all add: build_spotify_embed_def build_youtube_embed_def)
  show ?thesis
    using placeholders_only_when_absent [of "titled_env (JDict [(str ''title'', JNull)])"
        cog_init "str ''a''" "[(str ''title'', JNull)]" True]
      placeholders_only_when_absent
        [of "titled_env (JDict [(str ''thumbnail_url'', JStr (str ''u''))])"
         cog_init "str ''a''" "[(str ''thumbnail_url'', JStr (str ''u''))]" True]
      placeholders_only_when_absent
        [of "titled_env (JDict [(str ''title'', JStr (str ''t'')), (str ''author_name'', JNull)])"
         cog_init "str ''a''" "[(str ''title'', JStr (str ''t'')), (str ''author_name'', JNull)]"
         True]
    by (simp add: f n str_def)
qed

section \<open>The reply: one cap for both loops\<close>

lemma oembed_request_state:
  "fst (oembed_request env st u) = fst (oembed_request env st' u)"
  by (simp add: oembed_request_def Let_def split: http_outcome.split option.split)

lemma resolve_spotify_unit:
  "fst (resolve_spotify env show_thumb st i) = spotify_unit env show_thumb i"
  using oembed_request_state [of env st _ cog_init]
  by (simp add: resolve_spotify_def spotify_unit_def fetch_spotify_oembed_def Let_def
        split_beta split: sum.split)

lemma resolve_youtube_unit:
  "fst (resolve_youtube env show_thumb st i) = youtube_unit env show_thumb i"
  using oembed_request_state [of env st _ cog_init]
  by (simp add: resolve_youtube_def youtube_unit_def fetch_youtube_oembed_def Let_def
        split_beta split: sum.split)

lemma resolved_append: "resolved (us @ vs) = resolved us @ resolved vs"
  by (induction us rule: resolved.induct) simp_all

lemma embed_loop_resolved:
  assumes u: "\<And>st i. fst (resolve st i) = u i"
  shows "fst (embed_loop resolve m embeds st ids) = Inr out
    \<Longrightarrow> out = embeds @ take (nat m - length embeds) (resolved (map u ids))"
proof (induction ids arbitrary: embeds st)
  case Nil
  then show ?case by simp
next
  case (Cons i ids)
  show ?case
  proof (cases "int (length embeds) \<ge> m")
    case True
    with Cons.prems show ?thesis by simp
  next
    case False
    obtain r st' where r: "resolve st i = (r, st')" by (cases "resolve st i")
    with u [of st i] have ui: "u i = r" by simp
    from False have k: "nat m - length embeds = Suc (nat m - length embeds - 1)" by linarith
    show ?thesis
    proof (cases r)
      case None
      with False r Cons.prems Cons.IH [of embeds st'] ui show ?thesis by simp
    next
      case (Some x)
      show ?thesis
      proof (cases x)
        case (Inl e)
        with Some False r Cons.prems show ?thesis by simp
      next
        case (Inr em)
        with Some False r Cons.prems Cons.IH [of "embeds @ [em]" st'] ui k show ?thesis
          by (simp del: take_Suc_Cons) (metis take_Suc_Cons)
      qed
    qed
  qed
qed

lemma embed_loop_total:
  assumes u: "\<And>st i. fst (resolve st i) = u i"
  shows "\<forall>i\<in>set ids. \<forall>e. u i \<noteq> Some (Inl e)
    \<Longrightarrow> \<exists>out. fst (embed_loop resolve m embeds st ids) = Inr out"
proof (induction ids arbitrary: embeds st)
  case Nil
  show ?case by simp
next
  case (Cons i ids)
  show ?case
  proof (cases "int (length embeds) \<ge> m")
    case True
    then show ?thesis by simp
  next
    case False
    obtain r st' where r: "resolve st i = (r, st')" by (cases "resolve st i")
    with u [of st i] have ui: "u i = r" by simp
    from Cons.prems have rest: "\<forall>i\<in>set ids. \<forall>e. u i \<noteq> Some (Inl e)" by simp
    show ?thesis
    proof (cases r)
      case None
      with False r Cons.IH [OF rest, of embeds st'] show ?thesis by simp
    next
      case (Some x)
      show ?thesis
      proof (cases x)
        case (Inl e)
        with Some ui Cons.prems show ?thesis by simp
      next
        case (Inr em)
        with Some False r Cons.IH [OF rest, of "embeds @ [em]" st'] show ?thesis by simp
      qed
    qed
  qed
qed

lemma embed_loop_first:
  assumes u: "\<And>st i. fst (resolve st i) = u i"
  shows "\<forall>i\<in>set (take (nat m - length embeds) ids). \<exists>e. u i = Some (Inr e)
    \<Longrightarrow> fst (embed_loop resolve m embeds st ids)
        = Inr (embeds @ resolved (map u (take (nat m - length embeds) ids)))"
proof (induction ids arbitrary: embeds st)
  case Nil
  show ?case by simp
next
  case (Cons i ids)
  show ?case
  proof (cases "int (length embeds) \<ge> m")
    case True
    then have "nat m - length embeds = 0" by linarith
    with True show ?thesis by simp
  next
    case False
    then have k: "nat m - length embeds = Suc (nat m - length (embeds @ [undefined]))"
      by simp
    obtain r st' where r: "resolve st i = (r, st')" by (cases "resolve st i")
    with u [of st i] have ui: "u i = r" by simp
    from Cons.prems k obtain em where em: "u i = Some (Inr em)" by auto
    from Cons.prems k
    have rest: "\<forall>i\<in>set (take (nat m - length (embeds @ [em])) ids). \<exists>e. u i = Some (Inr e)"
      by simp
    from ui em have r': "r = Some (Inr em)" by simp
    from Cons.IH [OF rest, of st'] False r [unfolded r'] em k show ?thesis
      by simp
  qed
qed

lemma length_resolved:
  "\<forall>u\<in>set us. \<exists>e. u = Some (Inr e) \<Longrightarrow> length (resolved us) = length us"
  by (induction us rule: resolved.induct) simp_all

lemma take_take_append:
  "take n xs @ take (n - length (take n xs)) ys = take n (xs @ ys)"
  by (cases "length xs \<le> n") simp_all

lemma two_loops_resolved:
  assumes u1: "\<And>st i. fst (R1 st i) = u1 i" and u2: "\<And>st i. fst (R2 st i) = u2 i"
    and out: "fst (case embed_loop R1 m [] st ids1 of
                (Inl e, st1) \<Rightarrow> (Inl e, st1)
              | (Inr embeds, st1) \<Rightarrow> embed_loop R2 m embeds st1 ids2) = Inr out"
  shows "out = take (nat m) (resolved (map u1 ids1 @ map u2 ids2))"
proof -
  obtain r1 st1 where l1: "embed_loop R1 m [] st ids1 = (r1, st1)"
    by (cases "embed_loop R1 m [] st ids1")
  show ?thesis
  proof (cases r1)
    case (Inl e)
    with l1 out show ?thesis by simp
  next
    case (Inr e1)
    with l1 have "fst (embed_loop R1 m [] st ids1) = Inr e1" by simp
    from embed_loop_resolved [of R1 u1, OF u1 this]
    have e1: "e1 = take (nat m) (resolved (map u1 ids1))" by simp
    from Inr l1 out have "fst (embed_loop R2 m e1 st1 ids2) = Inr out" by simp
    from embed_loop_resolved [of R2 u2, OF u2 this]
    have "out = e1 @ take (nat m - length e1) (resolved (map u2 ids2))" .
    then show ?thesis
      unfolding e1 resolved_append by (simp only: take_take_append)
  qed
qed

lemma two_loops_total:
  assumes u1: "\<And>st i. fst (R1 st i) = u1 i" and u2: "\<And>st i. fst (R2 st i) = u2 i"
    and ok: "\<forall>u\<in>set (map u1 ids1 @ map u2 ids2). \<forall>e. u \<noteq> Some (Inl e)"
  shows "\<exists>out. fst (case embed_loop R1 m [] st ids1 of
                (Inl e, st1) \<Rightarrow> (Inl e, st1)
              | (Inr embeds, st1) \<Rightarrow> embed_loop R2 m embeds st1 ids2) = Inr out"
proof -
  from ok have ok1: "\<forall>i\<in>set ids1. \<forall>e. u1 i \<noteq> Some (Inl e)"
    and ok2: "\<forall>i\<in>set ids2. \<forall>e. u2 i \<noteq> Some (Inl e)" by auto
  from embed_loop_total [of R1 u1, OF u1 ok1, of m "[]" st]
  obtain e1 where "fst (embed_loop R1 m [] st ids1) = Inr e1" ..
  then obtain st1 where l1: "embed_loop R1 m [] st ids1 = (Inr e1, st1)"
    by (cases "embed_loop R1 m [] st ids1") simp
  from embed_loop_total [of R2 u2, OF u2 ok2, of m e1 st1]
  obtain out where "fst (embed_loop R2 m e1 st1 ids2) = Inr out" ..
  with l1 show ?thesis by simp
qed

lemma two_loops_first:
  assumes u1: "\<And>st i. fst (R1 st i) = u1 i" and u2: "\<And>st i. fst (R2 st i) = u2 i"
    and ok: "\<forall>u\<in>set (take (nat m) (map u1 ids1 @ map u2 ids2)). \<exists>e. u = Some (Inr e)"
  shows "fst (case embed_loop R1 m [] st ids1 of
                (Inl e, st1) \<Rightarrow> (Inl e, st1)
              | (Inr embeds, st1) \<Rightarrow> embed_loop R2 m embeds st1 ids2)
         = Inr (resolved (take (nat m) (map u1 ids1 @ map u2 ids2)))"
proof -
  let ?n = "nat m"
  from ok have ok1: "\<forall>u\<in>set (map u1 (take ?n ids1)). \<exists>e. u = Some (Inr e)"
    and ok2: "\<forall>u\<in>set (map u2 (take (?n - length ids1) ids2)). \<exists>e. u = Some (Inr e)"
    by (auto simp: take_map)
  let ?e1 = "resolved (map u1 (take ?n ids1))"
  from ok1 have "\<forall>i\<in>set (take (nat m - length ([]::embed list)) ids1). \<exists>e. u1 i = Some (Inr e)"
    by simp
  from embed_loop_first [of R1 u1, OF u1 this, of st]
  have "fst (embed_loop R1 m [] st ids1) = Inr ?e1" by simp
  then obtain st1 where l1: "embed_loop R1 m [] st ids1 = (Inr ?e1, st1)"
    by (cases "embed_loop R1 m [] st ids1") simp
  have len: "?n - length ?e1 = ?n - length ids1"
    using length_resolved [OF ok1] by simp
  from ok2 have "\<forall>i\<in>set (take (nat m - length ?e1) ids2). \<exists>e. u2 i = Some (Inr e)"
    unfolding len by simp
  from embed_loop_first [of R2 u2, OF u2 this, of st1]
  have "fst (embed_loop R2 m ?e1 st1 ids2)
      = Inr (?e1 @ resolved (map u2 (take (?n - length ids1) ids2)))"
    unfolding len .
  with l1 show ?thesis
    by (simp add: resolved_append take_map)
qed

lemma on_message_loops:
  assumes "guild msg = Some g" and "\<not> author_bot msg" and "enabled (cfg g)"
    and "\<not> is_command msg"
  shows "on_message env cfg st msg =
     (case embed_loop (resolve_spotify env (show_thumbnail (cfg g)))
             (max_links_per_message (cfg g)) [] st
             (map group1 (finditer (unicode_word env) SPOTIFY_RE (content msg))) of
        (Inl e, st1) \<Rightarrow> (Inl e, st1)
      | (Inr embeds, st1) \<Rightarrow>
          embed_loop (resolve_youtube env (show_thumbnail (cfg g)))
            (max_links_per_message (cfg g)) embeds st1
            (map group1 (finditer (unicode_word env) YOUTUBE_RE (content msg))))"
  using assms by (simp add: on_message_def Let_def)

lemma five_links_ids:
  "map group1 (finditer (\<lambda>c. False) SPOTIFY_RE (content five_links))
     = [str ''AAAAAAAAAAAAAAAAAAAAAA'', str ''BBBBBBBBBBBBBBBBBBBBBB'',
        str ''CCCCCCCCCCCCCCCCCCCCCC'']"
  "map group1 (finditer (\<lambda>c. False) YOUTUBE_RE (content five_links))
     = [str ''DDDDDDDDDDD'', str ''EEEEEEEEEEE'']"
  by (simp_all add: five_links_def rx_defs group1_def)

lemma five_links_units:
  "\<exists>e. spotify_unit (test_env []) True (str ''AAAAAAAAAAAAAAAAAAAAAA'') = Some (Inr e)
     \<and> embed_title e = [0x1F3B5, 32, 32] @ req_url (spotify_req (str ''AAAAAAAAAAAAAAAAAAAAAA''))"
  "\<exists>e. spotify_unit (test_env []) True (str ''BBBBBBBBBBBBBBBBBBBBBB'') = Some (Inr e)
     \<and> embed_title e = [0x1F3B5, 32, 32] @ req_url (spotify_req (str ''BBBBBBBBBBBBBBBBBBBBBB''))"
  "\<exists>e. spotify_unit (test_env []) True (str ''CCCCCCCCCCCCCCCCCCCCCC'') = Some (Inr e)
     \<and> embed_title e = [0x1F3B5, 32, 32] @ req_url (spotify_req (str ''CCCCCCCCCCCCCCCCCCCCCC''))"
  by (simp_all add: spotify_unit_def resolve_spotify_def fetch_defs test_env_def cog_init_def
        build_spotify_embed_def url_defs str_def Let_def spotify_req_def)

text \<open>
  C1. For a message of a user in a guild where the cog is enabled, which is not a
  command, let \<open>n\<close> be the guild's limit and \<open>us\<close> what the matches of the text
  contribute, in extraction order, all Spotify matches before any YouTube match. The cap
  is shared by the two loops and counts display units, not matches: a match whose
  metadata is unavailable is skipped and does not use up the cap. Whenever the handler
  reaches the reply, the units it holds are the first \<open>n\<close> resolved units of \<open>us\<close>; it
  does reach the reply when no match raises; and when the first \<open>n\<close> matches all
  resolve, the reply holds exactly their units, so that five links that resolve and the
  limit 3 give the units of the first three matches.
\<close>

theorem reply_cap_counts_units:
  assumes "guild msg = Some g" and "\<not> author_bot msg" and "enabled (cfg g)"
    and "\<not> is_command msg"
  shows "let n = nat (max_links_per_message (cfg g));
             us = units env (show_thumbnail (cfg g)) (content msg)
         in (\<forall>embeds. fst (on_message env cfg st msg) = Inr embeds
               \<longrightarrow> embeds = take n (resolved us))
          \<and> ((\<forall>u\<in>set us. \<forall>e. u \<noteq> Some (Inl e))
               \<longrightarrow> fst (on_message env cfg st msg) = Inr (take n (resolved us)))
          \<and> ((\<forall>u\<in>set (take n us). \<exists>e. u = Some (Inr e))
               \<longrightarrow> fst (on_message env cfg st msg) = Inr (resolved (take n us)))"
proof -
  note l = on_message_loops [where msg = msg and g = g and cfg = cfg and env = env and st = st,
      OF assms]
  note u1 = resolve_spotify_unit [of env "show_thumbnail (cfg g)"]
  note u2 = resolve_youtube_unit [of env "show_thumbnail (cfg g)"]
  have a: "embeds = take (nat (max_links_per_message (cfg g)))
             (resolved (units env (show_thumbnail (cfg g)) (content msg)))"
    if "fst (on_message env cfg st msg) = Inr embeds" for embeds
    using two_loops_resolved [OF u1 u2 that [unfolded l]]
    by (simp add: units_def)
  have b: "fst (on_message env cfg st msg)
        = Inr (take (nat (max_links_per_message (cfg g)))
             (resolved (units env (show_thumbnail (cfg g)) (content msg))))"
    if "\<forall>u\<in>set (units env (show_thumbnail (cfg g)) (content msg)). \<forall>e. u \<noteq> Some (Inl e)"
  proof -
    from two_loops_total [OF u1 u2 that [unfolded units_def],
        where m = "max_links_per_message (cfg g)" and st = st]
    obtain out where "fst (on_message env cfg st msg) = Inr out"
      unfolding l ..
    with a [OF this] show ?thesis by simp
  qed
  have c: "fst (on_message env cfg st msg)
        = Inr (resolved (take (nat (max_links_per_message (cfg g)))
             (units env (show_thumbnail (cfg g)) (content msg))))"
    if "\<forall>u\<in>set (take (nat (max_links_per_message (cfg g)))
          (units env (show_thumbnail (cfg g)) (content msg))). \<exists>e. u = Some (Inr e)"
    using two_loops_first [OF u1 u2 that [unfolded units_def], where st = st]
    unfolding l by (simp add: units_def)
  from a b c show ?thesis
    unfolding Let_def by blast
qed

theorem reply_cap_counts_units_witness:
  "fst (on_message (test_env []) config_init cog_init five_links)
     = Inr (resolved (take 3 (units (test_env []) True (content five_links))))
   \<and> map embed_title (resolved (take 3 (units (test_env []) True (content five_links))))
     = map (\<lambda>r. [0x1F3B5, 32, 32] @ req_url r)
         [spotify_req (str ''AAAAAAAAAAAAAAAAAAAAAA''),
          spotify_req (str ''BBBBBBBBBBBBBBBBBBBBBB''),
          spotify_req (str ''CCCCCCCCCCCCCCCCCCCCCC'')]"
proof -
  have w: "unicode_word (test_env []) = (\<lambda>c. False)"
    by (simp add: test_env_def)
  have us: "take 3 (units (test_env []) True (content five_links))
      = map (spotify_unit (test_env []) True)
          [str ''AAAAAAAAAAAAAAAAAAAAAA'', str ''BBBBBBBBBBBBBBBBBBBBBB'',
           str ''CCCCCCCCCCCCCCCCCCCCCC'']"
    by (simp add: units_def w five_links_ids)
  from five_links_units obtain a b c where
    a: "spotify_unit (test_env []) True (str ''AAAAAAAAAAAAAAAAAAAAAA'') = Some (Inr a)"
      "embed_title a = [0x1F3B5, 32, 32] @ req_url (spotify_req (str ''AAAAAAAAAAAAAAAAAAAAAA''))"
    and b: "spotify_unit (test_env []) True (str ''BBBBBBBBBBBBBBBBBBBBBB'') = Some (Inr b)"
      "embed_title b = [0x1F3B5, 32, 32] @ req_url (spotify_req (str ''BBBBBBBBBBBBBBBBBBBBBB''))"
    and c: "spotify_unit (test_env []) True (str ''CCCCCCCCCCCCCCCCCCCCCC'') = Some (Inr c)"
      "embed_title c = [0x1F3B5, 32, 32] @ req_url (spotify_req (str ''CCCCCCCCCCCCCCCCCCCCCC''))"
    by blast
  have g: "guild five_links = Some 0" "\<not> author_bot five_links"
    "enabled (config_init 0)" "\<not> is_command five_links"
    by (simp_all add: five_links_def config_init_def default_guild_def)
  have n: "nat (max_links_per_message (config_init 0)) = 3"
    "show_thumbnail (config_init 0) = True"
    by (simp_all add: config_init_def default_guild_def)
  from reply_cap_counts_units [where msg = five_links and g = 0 and cfg = config_init
      and env = "test_env []" and st = cog_init, OF g]
  show ?thesis
    unfolding Let_def n us by (simp add: a b c)
qed

text \<open>
  With the five links and the limit 3, when the metadata of the first link is
  unavailable, four matches are processed and the reply holds the units of the second,
  third and fourth match, not units of the first three matches only.
\<close>

theorem reply_cap_counterexample:
  "map embed_title
     (case fst (on_message (test_env [req_url (spotify_req (str ''AAAAAAAAAAAAAAAAAAAAAA''))])
                  config_init cog_init five_links) of
        Inl e \<Rightarrow> [] | Inr embeds \<Rightarrow> embeds)
     = map (\<lambda>r. [0x1F3B5, 32, 32] @ req_url r)
         [spotify_req (str ''BBBBBBBBBBBBBBBBBBBBBB''),
          spotify_req (str ''CCCCCCCCCCCCCCCCCCCCCC''),
          youtube_req (str ''DDDDDDDDDDD'')]
   \<and> requests (snd (on_message
         (test_env [req_url (spotify_req (str ''AAAAAAAAAAAAAAAAAAAAAA''))])
         config_init cog_init five_links))
     = [spotify_req (str ''AAAAAAAAAAAAAAAAAAAAAA''),
        spotify_req (str ''BBBBBBBBBBBBBBBBBBBBBB''),
        spotify_req (str ''CCCCCCCCCCCCCCCCCCCCCC''),
        youtube_req (str ''DDDDDDDDDDD'')]"
  by (simp add: on_message_def five_links_def config_init_def default_guild_def test_env_def
        cog_init_def resolve_spotify_def resolve_youtube_def fetch_defs
        build_spotify_embed_def build_youtube_embed_def format_value_def url_defs rx_defs
        group1_def spotify_req_def youtube_req_def)

end
